theory Spec2Isabelle
  imports Main "HOL-Library.Word" "HOL-Library.Monad_Syntax"
begin

unbundle bit_operations_syntax

section \<open>Go slices with run-time bounds checks\<close>

text \<open>
  Go checks every index and slice expression at run time and panics when it is out of
  range. The operations below return \<open>None\<close> for that panic. Indices are Go \<open>int\<close>s,
  so a length minus a constant can be negative; they are modelled as \<open>int\<close>.
\<close>

text \<open>\<open>s[i]\<close>\<close>
definition idx :: "'a list \<Rightarrow> int \<Rightarrow> 'a option" where
  "idx s i = (if 0 \<le> i \<and> i < int (length s) then Some (s ! nat i) else None)"

text \<open>\<open>&s[i]\<close>: the address of a slot, as its position in the backing array.\<close>
definition ref_at :: "'a list \<Rightarrow> int \<Rightarrow> nat option" where
  "ref_at s i = (if 0 \<le> i \<and> i < int (length s) then Some (nat i) else None)"

text \<open>\<open>s[:j]\<close>. Every use below has \<open>j \<le> len(s)\<close>, so the capacity is never the bound hit.\<close>
definition slice_to :: "'a list \<Rightarrow> int \<Rightarrow> 'a list option" where
  "slice_to s j = (if 0 \<le> j \<and> j \<le> int (length s) then Some (take (nat j) s) else None)"

text \<open>\<open>s[i:]\<close>: the view starts at position \<open>i\<close> of \<open>s\<close> and shares its storage.\<close>
definition slice_from :: "'a list \<Rightarrow> int \<Rightarrow> nat option" where
  "slice_from s i = (if 0 \<le> i \<and> i \<le> int (length s) then Some (nat i) else None)"

section \<open>The operand stack\<close>

type_synonym uint256 = "256 word"

record Stack =
  data :: "uint256 list"

definition len :: "Stack \<Rightarrow> int" where
  "len st = int (length (data st))"

definition push :: "uint256 \<Rightarrow> Stack \<Rightarrow> Stack" where
  "push d st = st\<lparr>data := data st @ [d]\<rparr>"

definition pop :: "Stack \<Rightarrow> (uint256 \<times> Stack) option" where
  "pop st = do {
     ret \<leftarrow> idx (data st) (len st - 1);
     d \<leftarrow> slice_to (data st) (len st - 1);
     Some (ret, st\<lparr>data := d\<rparr>)
   }"

definition pop2 :: "Stack \<Rightarrow> (uint256 \<times> uint256 \<times> Stack) option" where
  "pop2 st = do {
     pop1 \<leftarrow> idx (data st) (len st - 2);
     pop0 \<leftarrow> idx (data st) (len st - 1);
     d \<leftarrow> slice_to (data st) (len st - 2);
     Some (pop0, pop1, st\<lparr>data := d\<rparr>)
   }"

definition pop3 :: "Stack \<Rightarrow> (uint256 \<times> uint256 \<times> uint256 \<times> Stack) option" where
  "pop3 st = do {
     pop2 \<leftarrow> idx (data st) (len st - 3);
     pop1 \<leftarrow> idx (data st) (len st - 2);
     pop0 \<leftarrow> idx (data st) (len st - 1);
     d \<leftarrow> slice_to (data st) (len st - 3);
     Some (pop0, pop1, pop2, st\<lparr>data := d\<rparr>)
   }"

definition pop4 :: "Stack \<Rightarrow> (uint256 \<times> uint256 \<times> uint256 \<times> uint256 \<times> Stack) option" where
  "pop4 st = do {
     pop3 \<leftarrow> idx (data st) (len st - 4);
     pop2 \<leftarrow> idx (data st) (len st - 3);
     pop1 \<leftarrow> idx (data st) (len st - 2);
     pop0 \<leftarrow> idx (data st) (len st - 1);
     d \<leftarrow> slice_to (data st) (len st - 4);
     Some (pop0, pop1, pop2, pop3, st\<lparr>data := d\<rparr>)
   }"

text \<open>
  The \<open>peek\<close> result of the pop-and-peek family is a pointer into the stack's storage;
  it is modelled as the position it points at.
\<close>

definition popPeek :: "Stack \<Rightarrow> (uint256 \<times> nat \<times> Stack) option" where
  "popPeek st = do {
     peek \<leftarrow> ref_at (data st) (len st - 2);
     pop \<leftarrow> idx (data st) (len st - 1);
     d \<leftarrow> slice_to (data st) (len st - 1);
     Some (pop, peek, st\<lparr>data := d\<rparr>)
   }"

definition pop2Peek :: "Stack \<Rightarrow> (uint256 \<times> uint256 \<times> nat \<times> Stack) option" where
  "pop2Peek st = do {
     peek \<leftarrow> ref_at (data st) (len st - 3);
     pop1 \<leftarrow> idx (data st) (len st - 2);
     pop0 \<leftarrow> idx (data st) (len st - 1);
     d \<leftarrow> slice_to (data st) (len st - 2);
     Some (pop0, pop1, peek, st\<lparr>data := d\<rparr>)
   }"

definition pop3Peek :: "Stack \<Rightarrow> (uint256 \<times> uint256 \<times> uint256 \<times> nat \<times> Stack) option" where
  "pop3Peek st = do {
     peek \<leftarrow> ref_at (data st) (len st - 4);
     pop2 \<leftarrow> idx (data st) (len st - 3);
     pop1 \<leftarrow> idx (data st) (len st - 2);
     pop0 \<leftarrow> idx (data st) (len st - 1);
     d \<leftarrow> slice_to (data st) (len st - 3);
     Some (pop0, pop1, pop2, peek, st\<lparr>data := d\<rparr>)
   }"

definition pop5Peek ::
  "Stack \<Rightarrow> (uint256 \<times> uint256 \<times> uint256 \<times> uint256 \<times> uint256 \<times> nat \<times> Stack) option" where
  "pop5Peek st = do {
     peek \<leftarrow> ref_at (data st) (len st - 6);
     pop4 \<leftarrow> idx (data st) (len st - 5);
     pop3 \<leftarrow> idx (data st) (len st - 4);
     pop2 \<leftarrow> idx (data st) (len st - 3);
     pop1 \<leftarrow> idx (data st) (len st - 2);
     pop0 \<leftarrow> idx (data st) (len st - 1);
     d \<leftarrow> slice_to (data st) (len st - 5);
     Some (pop0, pop1, pop2, pop3, pop4, peek, st\<lparr>data := d\<rparr>)
   }"

definition pop6Peek ::
  "Stack \<Rightarrow> (uint256 \<times> uint256 \<times> uint256 \<times> uint256 \<times> uint256 \<times> uint256 \<times> nat \<times> Stack) option" where
  "pop6Peek st = do {
     peek \<leftarrow> ref_at (data st) (len st - 7);
     pop5 \<leftarrow> idx (data st) (len st - 6);
     pop4 \<leftarrow> idx (data st) (len st - 5);
     pop3 \<leftarrow> idx (data st) (len st - 4);
     pop2 \<leftarrow> idx (data st) (len st - 3);
     pop1 \<leftarrow> idx (data st) (len st - 2);
     pop0 \<leftarrow> idx (data st) (len st - 1);
     d \<leftarrow> slice_to (data st) (len st - 6);
     Some (pop0, pop1, pop2, pop3, pop4, pop5, peek, st\<lparr>data := d\<rparr>)
   }"

text \<open>
  The sixteen swaps have one body, \<open>tmp := st.data[st.len()-(n+1):]; tmp[0], tmp[n] =
  tmp[n], tmp[0]\<close>, with \<open>n\<close> written out in each. \<open>tmp\<close> is a view of the stack's
  storage from position \<open>lo\<close>, so the two assignments write \<open>st.data\<close> at \<open>lo\<close> and
  \<open>lo + n\<close>; both right-hand sides are read before either write.
\<close>

definition swap_body :: "nat \<Rightarrow> Stack \<Rightarrow> Stack option" where
  "swap_body n st = do {
     lo \<leftarrow> slice_from (data st) (len st - (int n + 1));
     let tmp = drop lo (data st);
     a \<leftarrow> idx tmp (int n);
     b \<leftarrow> idx tmp 0;
     Some (st\<lparr>data := (data st)[lo := a, lo + n := b]\<rparr>)
   }"

definition swap1 :: "Stack \<Rightarrow> Stack option" where "swap1 = swap_body 1"
definition swap2 :: "Stack \<Rightarrow> Stack option" where "swap2 = swap_body 2"
definition swap3 :: "Stack \<Rightarrow> Stack option" where "swap3 = swap_body 3"
definition swap4 :: "Stack \<Rightarrow> Stack option" where "swap4 = swap_body 4"
definition swap5 :: "Stack \<Rightarrow> Stack option" where "swap5 = swap_body 5"
definition swap6 :: "Stack \<Rightarrow> Stack option" where "swap6 = swap_body 6"
definition swap7 :: "Stack \<Rightarrow> Stack option" where "swap7 = swap_body 7"
definition swap8 :: "Stack \<Rightarrow> Stack option" where "swap8 = swap_body 8"
definition swap9 :: "Stack \<Rightarrow> Stack option" where "swap9 = swap_body 9"
definition swap10 :: "Stack \<Rightarrow> Stack option" where "swap10 = swap_body 10"
definition swap11 :: "Stack \<Rightarrow> Stack option" where "swap11 = swap_body 11"
definition swap12 :: "Stack \<Rightarrow> Stack option" where "swap12 = swap_body 12"
definition swap13 :: "Stack \<Rightarrow> Stack option" where "swap13 = swap_body 13"
definition swap14 :: "Stack \<Rightarrow> Stack option" where "swap14 = swap_body 14"
definition swap15 :: "Stack \<Rightarrow> Stack option" where "swap15 = swap_body 15"
definition swap16 :: "Stack \<Rightarrow> Stack option" where "swap16 = swap_body 16"

definition dup :: "int \<Rightarrow> Stack \<Rightarrow> Stack option" where
  "dup n st = do {
     d \<leftarrow> idx (data st) (len st - n);
     Some (push d st)
   }"

section \<open>Batched calls (package ethapi)\<close>

text \<open>
  A Go \<open>error\<close> value. The errors of the collaborators (backend, state, EVM) are
  opaque here and carried by their message; the two wrappers are the ones \<open>Multicall\<close>
  builds with \<open>fmt.Errorf\<close>.
\<close>

datatype error =
    External string
  | With_reason error string  \<comment> \<open>\<open>fmt.Errorf("%w: %s", err, reason)\<close>\<close>
  | Call_reverted int error  \<comment> \<open>\<open>fmt.Errorf("call %d reverted: %w", i, err)\<close>\<close>

type_synonym bytes = "8 word list"
type_synonym address = "160 word"
type_synonym hash = "256 word"
type_synonym AccessList = "(address \<times> hash list) list"

text \<open>\<open>core.ExecutionResult\<close>: the fields \<open>DoMulticall\<close> reads.\<close>

record ExecutionResult =
  UsedGas :: "64 word"
  result_Err :: "error option"
  ReturnData :: bytes

record 'lg ExecutionResultArgs =
  GasUsed :: "64 word"
  MinGasLimit :: "64 word"
  Output :: bytes
  AccessList :: AccessList
  Logs :: "'lg list"
  Err :: "error option"

text \<open>
  The collaborators of \<open>DoMulticall\<close>, as functions of the values they read. The state
  database \<open>state\<close> and the gas pool \<open>gp\<close> are mutated in place by the calls that take
  them; here such a call returns the new value. \<open>ApplyMessage\<close> stands for the run of the
  EVM built by \<open>GetEVM\<close> on \<open>state\<close>: it returns the state and gas pool it leaves, the
  access list its tracer has collected, and \<open>core.ApplyMessage\<close>'s result or error.
  \<open>vmError\<close> is read after the run. The timeout of the context and the goroutine that
  cancels the EVM are outside the model.
\<close>

record ('st, 'hdr, 'arg, 'msg, 'lg) Backend =
  StateAndHeaderByNumberOrHash :: "'st option \<times> 'hdr \<times> error option"
  overrides_Apply :: "'st \<Rightarrow> 'st \<times> error option"
  ToMessage :: "'arg \<Rightarrow> 'hdr \<Rightarrow> error + 'msg"
  msg_To :: "'msg \<Rightarrow> address option"
  GetEVM :: "'msg \<Rightarrow> 'st \<Rightarrow> 'hdr \<Rightarrow> error option"
  ApplyMessage :: "'msg \<Rightarrow> 'st \<Rightarrow> 64 word \<Rightarrow> 'st \<times> 64 word \<times> AccessList \<times> (error + ExecutionResult)"
  vmError :: "'st \<Rightarrow> error option"
  GetRefund :: "'st \<Rightarrow> 64 word"
  state_Logs :: "'st \<Rightarrow> 'lg list"
  Commit :: "'st \<Rightarrow> 'st"

text \<open>\<open>math.MaxUint64\<close>\<close>

definition MaxUint64 :: "64 word" where
  "MaxUint64 = - 1"

text \<open>
  A Go function returning \<open>(results, err)\<close> returns that pair, with \<open>nil\<close> results as
  \<open>[]\<close>; \<open>None\<close> is a run-time panic.
\<close>

type_synonym 'lg returned = "('lg ExecutionResultArgs list \<times> error option) option"

text \<open>
  One iteration of the loop of \<open>DoMulticall\<close>, for \<open>args[i]\<close> of \<open>n = len(args)\<close>
  calls, on the shared state and gas pool: \<open>Inl\<close> is the error of an early
  \<open>return nil, err\<close>, \<open>Inr\<close> the record stored in \<open>results[i]\<close> with the state and
  gas pool the iteration leaves. \<open>*msg.To()\<close> dereferences a pointer that is nil for a
  message without recipient.
\<close>

definition call ::
  "('st, 'hdr, 'arg, 'msg, 'lg) Backend \<Rightarrow> 'hdr \<Rightarrow> nat \<Rightarrow> nat \<Rightarrow> 'arg \<Rightarrow> 'st \<times> 64 word \<Rightarrow>
     (error + 'lg ExecutionResultArgs \<times> 'st \<times> 64 word) option" where
  "call b header n i arg s =
     (case s of (state, gp) \<Rightarrow>
      case ToMessage b arg header of
        Inl err \<Rightarrow> Some (Inl err)
      | Inr msg \<Rightarrow>
         (case msg_To b msg of
            None \<Rightarrow> None
          | Some to \<Rightarrow>
             (case GetEVM b msg state header of
                Some err \<Rightarrow> Some (Inl err)
              | None \<Rightarrow>
                 (case ApplyMessage b msg state gp of (state', gp', al, res) \<Rightarrow>
                  case vmError b state' of
                    Some err \<Rightarrow> Some (Inl err)
                  | None \<Rightarrow>
                     (case res of
                        Inl err \<Rightarrow> Some (Inl err)
                      | Inr result \<Rightarrow>
                          Some (Inr
                            (\<lparr>GasUsed = UsedGas result,
                              MinGasLimit = UsedGas result + GetRefund b state',
                              Output = ReturnData result,
                              AccessList = al,
                              Logs = state_Logs b state',
                              Err = result_Err result\<rparr>,
                             if int i < int n - 1 then Commit b state' else state',
                             gp')))))))"

text \<open>
  The loop over \<open>args\<close> from index \<open>i\<close>. \<open>results\<close> holds the records stored so far;
  the source allocates all \<open>n\<close> slots first and fills slot \<open>i\<close> in iteration \<open>i\<close>, and
  returns the slice only after the last iteration, when every slot is filled.
\<close>

fun DoMulticall_loop ::
  "('st, 'hdr, 'arg, 'msg, 'lg) Backend \<Rightarrow> 'hdr \<Rightarrow> nat \<Rightarrow> nat \<Rightarrow> 'arg list \<Rightarrow> 'st \<times> 64 word \<Rightarrow>
     'lg ExecutionResultArgs list \<Rightarrow> 'lg returned" where
  "DoMulticall_loop b header n i [] s results = Some (results, None)"
| "DoMulticall_loop b header n i (arg # args) s results =
     (case call b header n i arg s of
        None \<Rightarrow> None
      | Some (Inl err) \<Rightarrow> Some ([], Some err)
      | Some (Inr (r, s')) \<Rightarrow> DoMulticall_loop b header n (i + 1) args s' (results @ [r]))"

definition DoMulticall :: "('st, 'hdr, 'arg, 'msg, 'lg) Backend \<Rightarrow> 'arg list \<Rightarrow> 'lg returned" where
  "DoMulticall b args =
     (case StateAndHeaderByNumberOrHash b of (state, header, err) \<Rightarrow>
      case state of
        None \<Rightarrow> Some ([], err)
      | Some st \<Rightarrow>
         if err \<noteq> None then Some ([], err)
         else
          (case overrides_Apply b st of
             (st', Some err) \<Rightarrow> Some ([], Some err)
           | (st', None) \<Rightarrow> DoMulticall_loop b header (length args) 0 args (st', MaxUint64) []))"

text \<open>
  The loop of \<open>Multicall\<close> over \<open>results\<close> from index \<open>i\<close>, with the variable
  \<open>firstErr\<close> as accumulator. \<open>result\<close> is the loop's copy of the element, so the
  assignment to \<open>result.Err\<close> changes what \<open>firstErr\<close> wraps and not \<open>results\<close>.
  \<open>UnpackRevert\<close> is \<open>abi.UnpackRevert\<close>: the reason, or \<open>None\<close> for its error.
\<close>

fun Multicall_loop ::
  "(bytes \<Rightarrow> string option) \<Rightarrow> nat \<Rightarrow> 'lg ExecutionResultArgs list \<Rightarrow> error option \<Rightarrow> error option" where
  "Multicall_loop UnpackRevert i [] firstErr = firstErr"
| "Multicall_loop UnpackRevert i (result # results) firstErr =
     (case Err result of
        None \<Rightarrow> Multicall_loop UnpackRevert (i + 1) results firstErr
      | Some err \<Rightarrow>
          Multicall_loop UnpackRevert (i + 1) results
            (Some (Call_reverted (int i + 1)
               (case UnpackRevert (Output result) of
                  Some reason \<Rightarrow> With_reason err reason
                | None \<Rightarrow> err))))"

definition Multicall ::
  "('st, 'hdr, 'arg, 'msg, 'lg) Backend \<Rightarrow> (bytes \<Rightarrow> string option) \<Rightarrow> 'arg list \<Rightarrow> 'lg returned" where
  "Multicall b UnpackRevert args =
     (case DoMulticall b args of
        None \<Rightarrow> None
      | Some (results, Some err) \<Rightarrow> Some ([], Some err)
      | Some (results, None) \<Rightarrow> Some (results, Multicall_loop UnpackRevert 0 results None))"


subsection \<open>A backend to run the batched calls on\<close>

text \<open>
  The state is one stored number. A call with argument \<open>a > 0\<close> adds \<open>a\<close> to it and
  returns the new number as a byte; a call with argument \<open>0\<close> reverts: it leaves the
  number as it is and records a failure, with the stored number as return data. Every call
  uses 21000 gas. A negative argument is not a valid transaction.
\<close>

definition demo_backend :: "(int, unit, int, int, unit) Backend" where
  "demo_backend =
     \<lparr>StateAndHeaderByNumberOrHash = (Some 0, (), None),
      overrides_Apply = (\<lambda>st. (st, None)),
      ToMessage = (\<lambda>a _. if a < 0 then Inl (External ''invalid arguments'') else Inr a),
      msg_To = (\<lambda>_. Some 1),
      GetEVM = (\<lambda>_ _ _. None),
      ApplyMessage = (\<lambda>a st gp.
         if a = 0
         then (st, gp - 21000, [],
               Inr \<lparr>UsedGas = 21000, result_Err = Some (External ''execution reverted''),
                    ReturnData = [word_of_int st]\<rparr>)
         else (st + a, gp - 21000, [],
               Inr \<lparr>UsedGas = 21000, result_Err = None, ReturnData = [word_of_int (st + a)]\<rparr>)),
      vmError = (\<lambda>_. None),
      GetRefund = (\<lambda>_. 0),
      state_Logs = (\<lambda>_. []),
      Commit = (\<lambda>st. st)\<rparr>"

text \<open>A decoder of revert reasons that reads the first byte of the return data.\<close>

definition demo_UnpackRevert :: "bytes \<Rightarrow> string option" where
  "demo_UnpackRevert out =
     (case out of [] \<Rightarrow> None | w # _ \<Rightarrow> Some (if w < 4 then ''low balance'' else ''high balance''))"

section \<open>The code bitmap (package vm, code analysis)\<close>

text \<open>
  Modelled from the spec: the opcode constants (\<open>opcodes.go\<close> is not among the sources).
  The push opcodes are a contiguous range of byte values, \<open>PUSH1\<close> the first with one
  immediate byte and \<open>PUSH32\<close> the last with 32; the values are those of the EVM
  instruction set.
\<close>

definition PUSH1 :: "8 word" where "PUSH1 = 0x60"
definition PUSH2 :: "8 word" where "PUSH2 = 0x61"
definition PUSH3 :: "8 word" where "PUSH3 = 0x62"
definition PUSH8 :: "8 word" where "PUSH8 = 0x67"
definition PUSH16 :: "8 word" where "PUSH16 = 0x6f"
definition PUSH32 :: "8 word" where "PUSH32 = 0x7f"

text \<open>The bitmap: 32-bit words, bit \<open>i\<close> of word \<open>w\<close> standing for code position \<open>32 * w + i\<close>.\<close>

type_synonym bitvec = "32 word list"

text \<open>
  The table of \<open>TestBitvec\<close>: code buffers and the bitmaps the analysis has to return
  for them.
\<close>

definition TestBitvec_tests :: "(bytes \<times> bitvec) list" where
  "TestBitvec_tests =
    [([], [0, 0]),
     ([PUSH1, 0x01, 0x01, 0x01], [0b00000000000000000000000000000010, 0]),
     ([PUSH2, 0x01, 0x01, 0x01], [0b00000000000000000000000000000110, 0]),
     ([PUSH1, PUSH1, PUSH1, PUSH1], [0b00000000000000000000000000001010, 0]),
     ([0x00, PUSH1, 0x00, PUSH1, 0x00, PUSH1, 0x00, PUSH1],
      [0b00000000000000000000000101010100, 0]),
     ([PUSH8, PUSH8, PUSH8, PUSH8, PUSH8, PUSH8, PUSH8, PUSH8, 0x01, 0x01, 0x01],
      [0b00000000000000000000000111111110, 0]),
     ([0x01, 0x01, 0x01, 0x01, 0x01, PUSH2, 0x01, 0x01, 0x01, 0x01, 0x01],
      [0b00000000000000000000000011000000, 0]),
     ([PUSH3, 0x01, 0x01, 0x01, PUSH1, 0x01, 0x01, 0x01, 0x01, 0x01, 0x01],
      [0b00000000000000000000000000101110, 0]),
     ([0x01, PUSH8, 0x01, 0x01, 0x01, 0x01, 0x01, 0x01, 0x01, 0x01, 0x01, 0x01],
      [0b00000000000000000000001111111100, 0]),
     ([PUSH16, 0x01, 0x01, 0x01, 0x01, 0x01, 0x01, 0x01, 0x01, 0x01, 0x01],
      [0b00000000000000011111111111111110, 0]),
     ([PUSH8, 0x01, 0x02, 0x03, 0x04, 0x05, 0x06, 0x07, 0x08, PUSH1, 0x01],
      [0b00000000000000000000010111111110, 0]),
     ([PUSH32], [0b11111111111111111111111111111110, 0b00000000000000000000000000000001]),
     ([0x00, 0x00, 0x00, 0x00, 0x00, 0x00, 0x00, 0x00,
       0x00, 0x00, 0x00, 0x00, 0x00, 0x00, 0x00, 0x00,
       0x00, 0x00, 0x00, 0x00, 0x00, 0x00, 0x00, 0x00,
       0x00, 0x00, 0x00, 0x00, 0x00, 0x00, PUSH2, 0xff,
       0xff],
      [0b10000000000000000000000000000000, 0b00000000000000000000000000000001, 0]),
     ([0x00, 0x00, 0x00, 0x00, 0x00, 0x00, 0x00, 0x00,
       0x00, 0x00, 0x00, 0x00, 0x00, 0x00, 0x00, 0x00,
       0x00, 0x00, 0x00, 0x00, 0x00, 0x00, 0x00, 0x00,
       0x00, 0x00, 0x00, 0x00, 0x00, 0x00, 0x00, PUSH32],
      [0b00000000000000000000000000000000, 0b11111111111111111111111111111111, 0])]"

text \<open>
  Modelled from the spec: the analysis itself, \<open>newCodeBitVec\<close> (the spec's \<open>Build\<close>)
  with \<open>codeBitvecInternal\<close> and the bit operations of \<open>bitvec\<close>, whose file is not
  among the sources; only \<open>TestBitvec\<close> and the benchmarks that call them are. The
  scan is the spec's: left to right with a cursor; a push opcode with \<open>n\<close> immediate bytes
  marks the \<open>n\<close> positions after the cursor and moves it by \<open>1 + n\<close>, any other byte
  moves it by 1. The spec gives two accounts of a push whose immediates run past the end
  of the buffer: that the marks stop at the buffer end, and that the bit patterns of the
  reference vectors are to be reproduced exactly. Four of the vectors of \<open>TestBitvec\<close>
  have such a push (the fifth, the tenth, \<open>[PUSH32]\<close>, and 31 zero bytes followed by
  \<open>PUSH32\<close>), and in each all \<open>n\<close> bits are set, beyond the buffer end. The vectors
  are the repository's own statement of what the analysis returns, so the marks are not
  clipped here, and the bitmap has the \<open>len / 32 + 2\<close> words that the vectors show
  (2 words for the lengths 0 to 12, 3 words for the lengths 32 and 33), which always hold
  the marks. \<open>None\<close> is the panic of a write outside the bitmap.
\<close>

definition set1 :: "bitvec \<Rightarrow> nat \<Rightarrow> bitvec option" where
  "set1 bits pos =
     (if pos div 32 < length bits
      then Some (bits[pos div 32 := bits ! (pos div 32) OR push_bit (pos mod 32) 1])
      else None)"

fun setN :: "bitvec \<Rightarrow> nat \<Rightarrow> nat \<Rightarrow> bitvec option" where
  "setN bits pos 0 = Some bits"
| "setN bits pos (Suc n) =
     (case set1 bits pos of None \<Rightarrow> None | Some bits' \<Rightarrow> setN bits' (pos + 1) n)"

function codeBitvecInternal :: "bytes \<Rightarrow> nat \<Rightarrow> bitvec \<Rightarrow> bitvec option" where
  "codeBitvecInternal code pc bits =
     (if pc < length code
      then
        (if PUSH1 \<le> code ! pc \<and> code ! pc \<le> PUSH32
         then
           (case setN bits (pc + 1) (unat (code ! pc - PUSH1) + 1) of
              None \<Rightarrow> None
            | Some bits' \<Rightarrow> codeBitvecInternal code (pc + 1 + (unat (code ! pc - PUSH1) + 1)) bits')
         else codeBitvecInternal code (pc + 1) bits)
      else Some bits)"
  by pat_completeness auto
termination
  by (relation "measure (\<lambda>(code, pc, bits). length code - pc)") auto

definition newCodeBitVec :: "bytes \<Rightarrow> bitvec option" where
  "newCodeBitVec code = codeBitvecInternal code 0 (replicate (length code div 32 + 2) 0)"

text \<open>
  Modelled from the spec: the query \<open>IsPushData(bitmap, position)\<close>, also in the missing
  file. It reads the bit of the position, is defined for every position, and is false
  outside the bitmap.
\<close>

definition IsPushData :: "bitvec \<Rightarrow> nat \<Rightarrow> bool" where
  "IsPushData bits pos = (pos div 32 < length bits \<and> bit (bits ! (pos div 32)) (pos mod 32))"

text \<open>
  Modelled from the spec: the scan in the spec's first account, kept for comparison with
  the vectors of \<open>TestBitvec\<close> only. The marks of a push are clipped at the end of the
  buffer: \<open>(cursor, cursor + n]\<close> intersected with \<open>[0, codeLen)\<close>.
\<close>

function Build_clipped_scan :: "bytes \<Rightarrow> nat \<Rightarrow> bitvec \<Rightarrow> bitvec option" where
  "Build_clipped_scan code pc bits =
     (if pc < length code
      then
        (if PUSH1 \<le> code ! pc \<and> code ! pc \<le> PUSH32
         then
           (case setN bits (pc + 1) (min (unat (code ! pc - PUSH1) + 1) (length code - pc - 1)) of
              None \<Rightarrow> None
            | Some bits' \<Rightarrow> Build_clipped_scan code (pc + 1 + (unat (code ! pc - PUSH1) + 1)) bits')
         else Build_clipped_scan code (pc + 1) bits)
      else Some bits)"
  by pat_completeness auto
termination
  by (relation "measure (\<lambda>(code, pc, bits). length code - pc)") auto

definition Build_clipped :: "bytes \<Rightarrow> bitvec option" where
  "Build_clipped code = Build_clipped_scan code 0 (replicate (length code div 32 + 2) 0)"

section \<open>Properties of the operand stack\<close>

lemmas go_slice_defs = idx_def ref_at_def slice_to_def slice_from_def len_def

lemma pop_Some:
  "1 \<le> length (data st) \<Longrightarrow>
   pop st = Some (data st ! (length (data st) - 1), st\<lparr>data := take (length (data st) - 1) (data st)\<rparr>)"
  by (auto simp: pop_def go_slice_defs nat_diff_distrib')

lemma pop2_Some:
  "2 \<le> length (data st) \<Longrightarrow>
   pop2 st = Some (data st ! (length (data st) - 1), data st ! (length (data st) - 2),
                   st\<lparr>data := take (length (data st) - 2) (data st)\<rparr>)"
  by (auto simp: pop2_def go_slice_defs nat_diff_distrib')

lemma pop3_Some:
  "3 \<le> length (data st) \<Longrightarrow>
   pop3 st = Some (data st ! (length (data st) - 1), data st ! (length (data st) - 2),
                   data st ! (length (data st) - 3),
                   st\<lparr>data := take (length (data st) - 3) (data st)\<rparr>)"
  by (auto simp: pop3_def go_slice_defs nat_diff_distrib')

lemma pop4_Some:
  "4 \<le> length (data st) \<Longrightarrow>
   pop4 st = Some (data st ! (length (data st) - 1), data st ! (length (data st) - 2),
                   data st ! (length (data st) - 3), data st ! (length (data st) - 4),
                   st\<lparr>data := take (length (data st) - 4) (data st)\<rparr>)"
  by (auto simp: pop4_def go_slice_defs nat_diff_distrib')

lemma pop_snoc: "pop (st\<lparr>data := xs @ [x]\<rparr>) = Some (x, st\<lparr>data := xs\<rparr>)"
  by (simp add: pop_Some)

lemma pop2_snoc: "pop2 (st\<lparr>data := xs @ [x1, x0]\<rparr>) = Some (x0, x1, st\<lparr>data := xs\<rparr>)"
  by (simp add: pop2_Some nth_append)

lemma pop3_snoc: "pop3 (st\<lparr>data := xs @ [x2, x1, x0]\<rparr>) = Some (x0, x1, x2, st\<lparr>data := xs\<rparr>)"
  by (simp add: pop3_Some nth_append)

lemma pop4_snoc:
  "pop4 (st\<lparr>data := xs @ [x3, x2, x1, x0]\<rparr>) = Some (x0, x1, x2, x3, st\<lparr>data := xs\<rparr>)"
  by (simp add: pop4_Some nth_append)

lemma top_split:
  assumes "n \<le> length (d :: 'a list)"
  obtains xs ys where "d = xs @ ys" and "length ys = n"
proof
  show "d = take (length d - n) d @ drop (length d - n) d" by simp
  show "length (drop (length d - n) d) = n" using assms by simp
qed

lemma length2E: assumes "length ys = 2" obtains a b where "ys = [a, b]"
  using assms by (auto simp: numeral_2_eq_2 length_Suc_conv)

lemma length3E: assumes "length ys = 3" obtains a b c where "ys = [a, b, c]"
  using assms by (auto simp: numeral_3_eq_3 length_Suc_conv)

lemma length4E: assumes "length ys = 4" obtains a b c e where "ys = [a, b, c, e]"
  using assms by (auto simp: eval_nat_numeral length_Suc_conv)

lemma pop2_seq:
  assumes "2 \<le> length (data st)"
  shows "pop2 st = do { (a, s1) \<leftarrow> pop st; (b, s2) \<leftarrow> pop s1; Some (a, b, s2) }"
proof -
  obtain xs ys where d: "data st = xs @ ys" and "length ys = 2"
    using assms by (rule top_split)
  then obtain x1 x0 where "ys = [x1, x0]" by (auto elim: length2E)
  with d have st: "st = st\<lparr>data := xs @ [x1, x0]\<rparr>" by simp
  have "pop (st\<lparr>data := xs @ [x1, x0]\<rparr>) = Some (x0, st\<lparr>data := xs @ [x1]\<rparr>)"
    using pop_snoc [where st = st and xs = "xs @ [x1]" and x = x0] by simp
  then show ?thesis
    by (subst (1 2) st) (simp add: pop2_snoc pop_snoc)
qed

lemma pop3_seq:
  assumes "3 \<le> length (data st)"
  shows "pop3 st = do { (a, s1) \<leftarrow> pop st; (b, s2) \<leftarrow> pop s1; (c, s3) \<leftarrow> pop s2;
                        Some (a, b, c, s3) }"
proof -
  obtain xs ys where d: "data st = xs @ ys" and "length ys = 3"
    using assms by (rule top_split)
  then obtain x2 x1 x0 where "ys = [x2, x1, x0]" by (auto elim: length3E)
  with d have st: "st = st\<lparr>data := xs @ [x2, x1, x0]\<rparr>" by simp
  have "pop (st\<lparr>data := xs @ [x2, x1, x0]\<rparr>) = Some (x0, st\<lparr>data := xs @ [x2, x1]\<rparr>)"
    using pop_snoc [where st = st and xs = "xs @ [x2, x1]" and x = x0] by simp
  moreover have "pop (st\<lparr>data := xs @ [x2, x1]\<rparr>) = Some (x1, st\<lparr>data := xs @ [x2]\<rparr>)"
    using pop_snoc [where st = st and xs = "xs @ [x2]" and x = x1] by simp
  ultimately show ?thesis
    by (subst (1 2) st) (simp add: pop3_snoc pop_snoc)
qed

lemma pop4_seq:
  assumes "4 \<le> length (data st)"
  shows "pop4 st = do { (a, s1) \<leftarrow> pop st; (b, s2) \<leftarrow> pop s1; (c, s3) \<leftarrow> pop s2;
                        (d, s4) \<leftarrow> pop s3; Some (a, b, c, d, s4) }"
proof -
  obtain xs ys where d: "data st = xs @ ys" and "length ys = 4"
    using assms by (rule top_split)
  then obtain x3 x2 x1 x0 where "ys = [x3, x2, x1, x0]" by (auto elim: length4E)
  with d have st: "st = st\<lparr>data := xs @ [x3, x2, x1, x0]\<rparr>" by simp
  have "pop (st\<lparr>data := xs @ [x3, x2, x1, x0]\<rparr>) = Some (x0, st\<lparr>data := xs @ [x3, x2, x1]\<rparr>)"
    using pop_snoc [where st = st and xs = "xs @ [x3, x2, x1]" and x = x0] by simp
  moreover have "pop (st\<lparr>data := xs @ [x3, x2, x1]\<rparr>) = Some (x1, st\<lparr>data := xs @ [x3, x2]\<rparr>)"
    using pop_snoc [where st = st and xs = "xs @ [x3, x2]" and x = x1] by simp
  moreover have "pop (st\<lparr>data := xs @ [x3, x2]\<rparr>) = Some (x2, st\<lparr>data := xs @ [x3]\<rparr>)"
    using pop_snoc [where st = st and xs = "xs @ [x3]" and x = x2] by simp
  ultimately show ?thesis
    by (subst (1 2) st) (simp add: pop4_snoc pop_snoc)
qed

lemma swap_body_Some:
  "n < length (data st) \<Longrightarrow>
   swap_body n st = Some (st\<lparr>data := (data st)[length (data st) - Suc n := data st ! (length (data st) - 1),
       length (data st) - 1 := data st ! (length (data st) - Suc n)]\<rparr>)"
  by (auto simp: swap_body_def go_slice_defs nat_diff_distrib' Let_def nat_add_distrib)

lemma swap_body_twice:
  assumes "n < length (data st)"
  shows "swap_body n st \<bind> swap_body n = Some st"
proof -
  let ?l = "length (data st)"
  let ?d = "(data st)[?l - Suc n := data st ! (?l - 1), ?l - 1 := data st ! (?l - Suc n)]"
  have 1: "swap_body n st = Some (st\<lparr>data := ?d\<rparr>)"
    using assms by (rule swap_body_Some)
  have 2: "swap_body n (st\<lparr>data := ?d\<rparr>) =
     Some (st\<lparr>data := ?d[?l - Suc n := ?d ! (?l - 1), ?l - 1 := ?d ! (?l - Suc n)]\<rparr>)"
    using assms swap_body_Some [of n "st\<lparr>data := ?d\<rparr>"] by simp
  have "?d[?l - Suc n := ?d ! (?l - 1), ?l - 1 := ?d ! (?l - Suc n)] = data st"
    using assms by (intro nth_equalityI) (auto simp: nth_list_update)
  with 1 2 show ?thesis by simp
qed

lemma dup_pop:
  assumes "1 \<le> length (data st)"
  shows "dup 1 st \<bind> pop = Some (data st ! (length (data st) - 1), st)"
  using assms by (auto simp: dup_def push_def pop_snoc go_slice_defs nat_diff_distrib')

lemma popPeek_Some:
  "2 \<le> length (data st) \<Longrightarrow>
   popPeek st = Some (data st ! (length (data st) - 1), length (data st) - 2,
                      st\<lparr>data := take (length (data st) - 1) (data st)\<rparr>)"
  by (auto simp: popPeek_def go_slice_defs nat_diff_distrib')

lemma pop2Peek_Some:
  "3 \<le> length (data st) \<Longrightarrow>
   pop2Peek st = Some (data st ! (length (data st) - 1), data st ! (length (data st) - 2),
                      length (data st) - 3,
                      st\<lparr>data := take (length (data st) - 2) (data st)\<rparr>)"
  by (auto simp: pop2Peek_def go_slice_defs nat_diff_distrib')

lemma pop3Peek_Some:
  "4 \<le> length (data st) \<Longrightarrow>
   pop3Peek st = Some (data st ! (length (data st) - 1), data st ! (length (data st) - 2),
                      data st ! (length (data st) - 3), length (data st) - 4,
                      st\<lparr>data := take (length (data st) - 3) (data st)\<rparr>)"
  by (auto simp: pop3Peek_def go_slice_defs nat_diff_distrib')

lemma pop5Peek_Some:
  "6 \<le> length (data st) \<Longrightarrow>
   pop5Peek st = Some (data st ! (length (data st) - 1), data st ! (length (data st) - 2),
                      data st ! (length (data st) - 3), data st ! (length (data st) - 4),
                      data st ! (length (data st) - 5), length (data st) - 6,
                      st\<lparr>data := take (length (data st) - 5) (data st)\<rparr>)"
  by (auto simp: pop5Peek_def go_slice_defs nat_diff_distrib')

lemma pop6Peek_Some:
  "7 \<le> length (data st) \<Longrightarrow>
   pop6Peek st = Some (data st ! (length (data st) - 1), data st ! (length (data st) - 2),
                      data st ! (length (data st) - 3), data st ! (length (data st) - 4),
                      data st ! (length (data st) - 5), data st ! (length (data st) - 6),
                      length (data st) - 7,
                      st\<lparr>data := take (length (data st) - 6) (data st)\<rparr>)"
  by (auto simp: pop6Peek_def go_slice_defs nat_diff_distrib')

text \<open>
  C1 (as stated, refuted). After pushing 1, 2, 3 in that order, \<open>pop3\<close> returns 3 first
  and 1 last: the first component is the former top, not the deepest of the three.
\<close>

theorem pop3_order_counterexample:
  "pop3 (push 3 (push 2 (push 1 \<lparr>data = []\<rparr>))) = Some (3, 2, 1, \<lparr>data = []\<rparr>) \<and>
   pop3 (push 3 (push 2 (push 1 \<lparr>data = []\<rparr>))) \<noteq> Some (1, 2, 3, \<lparr>data = []\<rparr>)"
  by (simp add: pop3_def push_def go_slice_defs)

text \<open>
  C1 (amended). On a stack of at least N elements (N = 2, 3, 4) the N-ary pop removes
  exactly the top N elements and returns them with \<open>pop0\<close> the former top and
  \<open>pop(N-1)\<close> the deepest of the N; after pushing a, b, c in that order, \<open>pop3\<close>
  returns c first and a last and leaves the stack as it was before the pushes.
\<close>

theorem popN_order:
  "(2 \<le> length (data st) \<longrightarrow>
      pop2 st = Some (data st ! (length (data st) - 1), data st ! (length (data st) - 2),
                      st\<lparr>data := take (length (data st) - 2) (data st)\<rparr>)) \<and>
   (3 \<le> length (data st) \<longrightarrow>
      pop3 st = Some (data st ! (length (data st) - 1), data st ! (length (data st) - 2),
                      data st ! (length (data st) - 3),
                      st\<lparr>data := take (length (data st) - 3) (data st)\<rparr>)) \<and>
   (4 \<le> length (data st) \<longrightarrow>
      pop4 st = Some (data st ! (length (data st) - 1), data st ! (length (data st) - 2),
                      data st ! (length (data st) - 3), data st ! (length (data st) - 4),
                      st\<lparr>data := take (length (data st) - 4) (data st)\<rparr>)) \<and>
   pop3 (push c (push b (push a st))) = Some (c, b, a, st)"
proof (intro conjI impI)
  show "pop3 (push c (push b (push a st))) = Some (c, b, a, st)"
    by (simp add: pop3_Some push_def nth_append)
qed (simp_all add: pop2_Some pop3_Some pop4_Some)

theorem popN_order_witness:
  "2 \<le> length (data \<lparr>data = [10, 20, 30, 40, 50]\<rparr>) \<and>
   pop2 \<lparr>data = [10, 20, 30, 40, 50]\<rparr> = Some (50, 40, \<lparr>data = [10, 20, 30]\<rparr>) \<and>
   3 \<le> length (data \<lparr>data = [10, 20, 30, 40, 50]\<rparr>) \<and>
   pop3 \<lparr>data = [10, 20, 30, 40, 50]\<rparr> = Some (50, 40, 30, \<lparr>data = [10, 20]\<rparr>) \<and>
   4 \<le> length (data \<lparr>data = [10, 20, 30, 40, 50]\<rparr>) \<and>
   pop4 \<lparr>data = [10, 20, 30, 40, 50]\<rparr> = Some (50, 40, 30, 20, \<lparr>data = [10]\<rparr>) \<and>
   pop3 (push 3 (push 2 (push 1 \<lparr>data = [10, 20, 30, 40, 50]\<rparr>))) =
     Some (3, 2, 1, \<lparr>data = [10, 20, 30, 40, 50]\<rparr>)"
  using popN_order [of "\<lparr>data = [10, 20, 30, 40, 50]\<rparr>" 3 2 1] by simp

text \<open>
  C10. On a stack of at least N elements (N = 2, 3, 4) the N-ary pop returns, and its
  result is that of N single pops in succession: the same final stack, and the tuple of
  the popped values in the order the single pops yield them, the first pop's value first.
\<close>

theorem popN_as_pops:
  "(2 \<le> length (data st) \<longrightarrow>
      pop2 st \<noteq> None \<and>
      pop2 st = do { (a, s1) \<leftarrow> pop st; (b, s2) \<leftarrow> pop s1; Some (a, b, s2) }) \<and>
   (3 \<le> length (data st) \<longrightarrow>
      pop3 st \<noteq> None \<and>
      pop3 st = do { (a, s1) \<leftarrow> pop st; (b, s2) \<leftarrow> pop s1; (c, s3) \<leftarrow> pop s2;
                     Some (a, b, c, s3) }) \<and>
   (4 \<le> length (data st) \<longrightarrow>
      pop4 st \<noteq> None \<and>
      pop4 st = do { (a, s1) \<leftarrow> pop st; (b, s2) \<leftarrow> pop s1; (c, s3) \<leftarrow> pop s2;
                     (d, s4) \<leftarrow> pop s3; Some (a, b, c, d, s4) })"
proof (intro conjI impI)
  assume "2 \<le> length (data st)"
  then show "pop2 st \<noteq> None" by (simp add: pop2_Some)
next
  assume "2 \<le> length (data st)"
  then show "pop2 st = do { (a, s1) \<leftarrow> pop st; (b, s2) \<leftarrow> pop s1; Some (a, b, s2) }"
    by (rule pop2_seq)
next
  assume "3 \<le> length (data st)"
  then show "pop3 st \<noteq> None" by (simp add: pop3_Some)
next
  assume "3 \<le> length (data st)"
  then show "pop3 st = do { (a, s1) \<leftarrow> pop st; (b, s2) \<leftarrow> pop s1; (c, s3) \<leftarrow> pop s2;
                            Some (a, b, c, s3) }"
    by (rule pop3_seq)
next
  assume "4 \<le> length (data st)"
  then show "pop4 st \<noteq> None" by (simp add: pop4_Some)
next
  assume "4 \<le> length (data st)"
  then show "pop4 st = do { (a, s1) \<leftarrow> pop st; (b, s2) \<leftarrow> pop s1; (c, s3) \<leftarrow> pop s2;
                            (d, s4) \<leftarrow> pop s3; Some (a, b, c, d, s4) }"
    by (rule pop4_seq)
qed

theorem popN_as_pops_witness:
  "2 \<le> length (data \<lparr>data = [10, 20, 30, 40, 50]\<rparr>) \<and>
   3 \<le> length (data \<lparr>data = [10, 20, 30, 40, 50]\<rparr>) \<and>
   4 \<le> length (data \<lparr>data = [10, 20, 30, 40, 50]\<rparr>) \<and>
   do { (a, s1) \<leftarrow> pop \<lparr>data = [10, 20, 30, 40, 50]\<rparr>; (b, s2) \<leftarrow> pop s1;
        Some (a, b, s2) } = Some (50, 40, \<lparr>data = [10, 20, 30]\<rparr>) \<and>
   do { (a, s1) \<leftarrow> pop \<lparr>data = [10, 20, 30, 40, 50]\<rparr>; (b, s2) \<leftarrow> pop s1;
        (c, s3) \<leftarrow> pop s2; Some (a, b, c, s3) } = Some (50, 40, 30, \<lparr>data = [10, 20]\<rparr>) \<and>
   do { (a, s1) \<leftarrow> pop \<lparr>data = [10, 20, 30, 40, 50]\<rparr>; (b, s2) \<leftarrow> pop s1;
        (c, s3) \<leftarrow> pop s2; (d, s4) \<leftarrow> pop s3; Some (a, b, c, d, s4) } =
     Some (50, 40, 30, 20, \<lparr>data = [10]\<rparr>)"
proof -
  have p2: "pop2 \<lparr>data = [10, 20, 30, 40, 50]\<rparr> = Some (50, 40, \<lparr>data = [10, 20, 30]\<rparr>)"
    by (simp add: pop2_def go_slice_defs)
  have p3: "pop3 \<lparr>data = [10, 20, 30, 40, 50]\<rparr> = Some (50, 40, 30, \<lparr>data = [10, 20]\<rparr>)"
    by (simp add: pop3_def go_slice_defs)
  have p4: "pop4 \<lparr>data = [10, 20, 30, 40, 50]\<rparr> = Some (50, 40, 30, 20, \<lparr>data = [10]\<rparr>)"
    by (simp add: pop4_def go_slice_defs)
  show ?thesis
    using popN_as_pops [of "\<lparr>data = [10, 20, 30, 40, 50]\<rparr>"] by (simp add: p2 p3 p4)
qed

text \<open>
  C7. On a stack of at least k+1 elements (k = 1, 2, 3, 5, 6) the k-ary pop-and-peek
  returns; the stack it leaves is the old one without its top k elements, and the
  reference it returns points at the last position of that stack (its new top), which holds
  the element that lay immediately below the popped group.
\<close>

theorem popPeek_new_top:
  "(1 < length (data st) \<longrightarrow>
      (case popPeek st of None \<Rightarrow> False
       | Some (p0, peek, st') \<Rightarrow>
           data st' = take (length (data st) - 1) (data st) \<and>
           Suc peek = length (data st') \<and>
           data st' ! peek = data st ! (length (data st) - 2))) \<and>
   (2 < length (data st) \<longrightarrow>
      (case pop2Peek st of None \<Rightarrow> False
       | Some (p0, p1, peek, st') \<Rightarrow>
           data st' = take (length (data st) - 2) (data st) \<and>
           Suc peek = length (data st') \<and>
           data st' ! peek = data st ! (length (data st) - 3))) \<and>
   (3 < length (data st) \<longrightarrow>
      (case pop3Peek st of None \<Rightarrow> False
       | Some (p0, p1, p2, peek, st') \<Rightarrow>
           data st' = take (length (data st) - 3) (data st) \<and>
           Suc peek = length (data st') \<and>
           data st' ! peek = data st ! (length (data st) - 4))) \<and>
   (5 < length (data st) \<longrightarrow>
      (case pop5Peek st of None \<Rightarrow> False
       | Some (p0, p1, p2, p3, p4, peek, st') \<Rightarrow>
           data st' = take (length (data st) - 5) (data st) \<and>
           Suc peek = length (data st') \<and>
           data st' ! peek = data st ! (length (data st) - 6))) \<and>
   (6 < length (data st) \<longrightarrow>
      (case pop6Peek st of None \<Rightarrow> False
       | Some (p0, p1, p2, p3, p4, p5, peek, st') \<Rightarrow>
           data st' = take (length (data st) - 6) (data st) \<and>
           Suc peek = length (data st') \<and>
           data st' ! peek = data st ! (length (data st) - 7)))"
  by (auto simp: popPeek_Some pop2Peek_Some pop3Peek_Some pop5Peek_Some pop6Peek_Some)

theorem popPeek_new_top_witness:
  "1 < length (data \<lparr>data = [1, 2, 3, 4, 5, 6, 7, 8]\<rparr>) \<and>
   popPeek \<lparr>data = [1, 2, 3, 4, 5, 6, 7, 8]\<rparr> =
     Some (8, 6, \<lparr>data = [1, 2, 3, 4, 5, 6, 7]\<rparr>) \<and>
   2 < length (data \<lparr>data = [1, 2, 3, 4, 5, 6, 7, 8]\<rparr>) \<and>
   pop2Peek \<lparr>data = [1, 2, 3, 4, 5, 6, 7, 8]\<rparr> =
     Some (8, 7, 5, \<lparr>data = [1, 2, 3, 4, 5, 6]\<rparr>) \<and>
   3 < length (data \<lparr>data = [1, 2, 3, 4, 5, 6, 7, 8]\<rparr>) \<and>
   pop3Peek \<lparr>data = [1, 2, 3, 4, 5, 6, 7, 8]\<rparr> =
     Some (8, 7, 6, 4, \<lparr>data = [1, 2, 3, 4, 5]\<rparr>) \<and>
   5 < length (data \<lparr>data = [1, 2, 3, 4, 5, 6, 7, 8]\<rparr>) \<and>
   pop5Peek \<lparr>data = [1, 2, 3, 4, 5, 6, 7, 8]\<rparr> =
     Some (8, 7, 6, 5, 4, 2, \<lparr>data = [1, 2, 3]\<rparr>) \<and>
   6 < length (data \<lparr>data = [1, 2, 3, 4, 5, 6, 7, 8]\<rparr>) \<and>
   pop6Peek \<lparr>data = [1, 2, 3, 4, 5, 6, 7, 8]\<rparr> =
     Some (8, 7, 6, 5, 4, 3, 1, \<lparr>data = [1, 2]\<rparr>)"
  using popPeek_new_top [of "\<lparr>data = [1, 2, 3, 4, 5, 6, 7, 8]\<rparr>"]
  by (simp add: popPeek_def pop2Peek_def pop3Peek_def pop5Peek_def pop6Peek_def go_slice_defs)

text \<open>
  C8. On a stack of at least n+1 elements (n = 1, ..., 16) \<open>swapN\<close> twice in succession
  returns the stack it started from; on a non-empty stack \<open>dup(1)\<close> followed by
  \<open>pop\<close> returns the stack it started from (and pops the value of the top).
\<close>

theorem swap_twice_dup_pop:
  "(1 < length (data st) \<longrightarrow> swap1 st \<bind> swap1 = Some st) \<and>
   (2 < length (data st) \<longrightarrow> swap2 st \<bind> swap2 = Some st) \<and>
   (3 < length (data st) \<longrightarrow> swap3 st \<bind> swap3 = Some st) \<and>
   (4 < length (data st) \<longrightarrow> swap4 st \<bind> swap4 = Some st) \<and>
   (5 < length (data st) \<longrightarrow> swap5 st \<bind> swap5 = Some st) \<and>
   (6 < length (data st) \<longrightarrow> swap6 st \<bind> swap6 = Some st) \<and>
   (7 < length (data st) \<longrightarrow> swap7 st \<bind> swap7 = Some st) \<and>
   (8 < length (data st) \<longrightarrow> swap8 st \<bind> swap8 = Some st) \<and>
   (9 < length (data st) \<longrightarrow> swap9 st \<bind> swap9 = Some st) \<and>
   (10 < length (data st) \<longrightarrow> swap10 st \<bind> swap10 = Some st) \<and>
   (11 < length (data st) \<longrightarrow> swap11 st \<bind> swap11 = Some st) \<and>
   (12 < length (data st) \<longrightarrow> swap12 st \<bind> swap12 = Some st) \<and>
   (13 < length (data st) \<longrightarrow> swap13 st \<bind> swap13 = Some st) \<and>
   (14 < length (data st) \<longrightarrow> swap14 st \<bind> swap14 = Some st) \<and>
   (15 < length (data st) \<longrightarrow> swap15 st \<bind> swap15 = Some st) \<and>
   (16 < length (data st) \<longrightarrow> swap16 st \<bind> swap16 = Some st) \<and>
   (1 \<le> length (data st) \<longrightarrow>
      dup 1 st \<bind> pop = Some (data st ! (length (data st) - 1), st))"
  by (simp add: swap1_def swap2_def swap3_def swap4_def swap5_def swap6_def swap7_def swap8_def swap9_def swap10_def swap11_def swap12_def swap13_def swap14_def swap15_def swap16_def swap_body_twice dup_pop)

theorem swap_twice_dup_pop_witness:
  "1 < length (data \<lparr>data = [1, 2, 3, 4, 5, 6, 7, 8, 9, 10, 11, 12, 13, 14, 15, 16, 17]\<rparr>) \<and>
   swap1 \<lparr>data = [1, 2, 3, 4, 5, 6, 7, 8, 9, 10, 11, 12, 13, 14, 15, 16, 17]\<rparr> = Some \<lparr>data = [1, 2, 3, 4, 5, 6, 7, 8, 9, 10, 11, 12, 13, 14, 15, 17, 16]\<rparr> \<and>
   swap1 \<lparr>data = [1, 2, 3, 4, 5, 6, 7, 8, 9, 10, 11, 12, 13, 14, 15, 16, 17]\<rparr> \<bind> swap1 = Some \<lparr>data = [1, 2, 3, 4, 5, 6, 7, 8, 9, 10, 11, 12, 13, 14, 15, 16, 17]\<rparr> \<and>
   2 < length (data \<lparr>data = [1, 2, 3, 4, 5, 6, 7, 8, 9, 10, 11, 12, 13, 14, 15, 16, 17]\<rparr>) \<and>
   swap2 \<lparr>data = [1, 2, 3, 4, 5, 6, 7, 8, 9, 10, 11, 12, 13, 14, 15, 16, 17]\<rparr> = Some \<lparr>data = [1, 2, 3, 4, 5, 6, 7, 8, 9, 10, 11, 12, 13, 14, 17, 16, 15]\<rparr> \<and>
   swap2 \<lparr>data = [1, 2, 3, 4, 5, 6, 7, 8, 9, 10, 11, 12, 13, 14, 15, 16, 17]\<rparr> \<bind> swap2 = Some \<lparr>data = [1, 2, 3, 4, 5, 6, 7, 8, 9, 10, 11, 12, 13, 14, 15, 16, 17]\<rparr> \<and>
   3 < length (data \<lparr>data = [1, 2, 3, 4, 5, 6, 7, 8, 9, 10, 11, 12, 13, 14, 15, 16, 17]\<rparr>) \<and>
   swap3 \<lparr>data = [1, 2, 3, 4, 5, 6, 7, 8, 9, 10, 11, 12, 13, 14, 15, 16, 17]\<rparr> = Some \<lparr>data = [1, 2, 3, 4, 5, 6, 7, 8, 9, 10, 11, 12, 13, 17, 15, 16, 14]\<rparr> \<and>
   swap3 \<lparr>data = [1, 2, 3, 4, 5, 6, 7, 8, 9, 10, 11, 12, 13, 14, 15, 16, 17]\<rparr> \<bind> swap3 = Some \<lparr>data = [1, 2, 3, 4, 5, 6, 7, 8, 9, 10, 11, 12, 13, 14, 15, 16, 17]\<rparr> \<and>
   4 < length (data \<lparr>data = [1, 2, 3, 4, 5, 6, 7, 8, 9, 10, 11, 12, 13, 14, 15, 16, 17]\<rparr>) \<and>
   swap4 \<lparr>data = [1, 2, 3, 4, 5, 6, 7, 8, 9, 10, 11, 12, 13, 14, 15, 16, 17]\<rparr> = Some \<lparr>data = [1, 2, 3, 4, 5, 6, 7, 8, 9, 10, 11, 12, 17, 14, 15, 16, 13]\<rparr> \<and>
   swap4 \<lparr>data = [1, 2, 3, 4, 5, 6, 7, 8, 9, 10, 11, 12, 13, 14, 15, 16, 17]\<rparr> \<bind> swap4 = Some \<lparr>data = [1, 2, 3, 4, 5, 6, 7, 8, 9, 10, 11, 12, 13, 14, 15, 16, 17]\<rparr> \<and>
   5 < length (data \<lparr>data = [1, 2, 3, 4, 5, 6, 7, 8, 9, 10, 11, 12, 13, 14, 15, 16, 17]\<rparr>) \<and>
   swap5 \<lparr>data = [1, 2, 3, 4, 5, 6, 7, 8, 9, 10, 11, 12, 13, 14, 15, 16, 17]\<rparr> = Some \<lparr>data = [1, 2, 3, 4, 5, 6, 7, 8, 9, 10, 11, 17, 13, 14, 15, 16, 12]\<rparr> \<and>
   swap5 \<lparr>data = [1, 2, 3, 4, 5, 6, 7, 8, 9, 10, 11, 12, 13, 14, 15, 16, 17]\<rparr> \<bind> swap5 = Some \<lparr>data = [1, 2, 3, 4, 5, 6, 7, 8, 9, 10, 11, 12, 13, 14, 15, 16, 17]\<rparr> \<and>
   6 < length (data \<lparr>data = [1, 2, 3, 4, 5, 6, 7, 8, 9, 10, 11, 12, 13, 14, 15, 16, 17]\<rparr>) \<and>
   swap6 \<lparr>data = [1, 2, 3, 4, 5, 6, 7, 8, 9, 10, 11, 12, 13, 14, 15, 16, 17]\<rparr> = Some \<lparr>data = [1, 2, 3, 4, 5, 6, 7, 8, 9, 10, 17, 12, 13, 14, 15, 16, 11]\<rparr> \<and>
   swap6 \<lparr>data = [1, 2, 3, 4, 5, 6, 7, 8, 9, 10, 11, 12, 13, 14, 15, 16, 17]\<rparr> \<bind> swap6 = Some \<lparr>data = [1, 2, 3, 4, 5, 6, 7, 8, 9, 10, 11, 12, 13, 14, 15, 16, 17]\<rparr> \<and>
   7 < length (data \<lparr>data = [1, 2, 3, 4, 5, 6, 7, 8, 9, 10, 11, 12, 13, 14, 15, 16, 17]\<rparr>) \<and>
   swap7 \<lparr>data = [1, 2, 3, 4, 5, 6, 7, 8, 9, 10, 11, 12, 13, 14, 15, 16, 17]\<rparr> = Some \<lparr>data = [1, 2, 3, 4, 5, 6, 7, 8, 9, 17, 11, 12, 13, 14, 15, 16, 10]\<rparr> \<and>
   swap7 \<lparr>data = [1, 2, 3, 4, 5, 6, 7, 8, 9, 10, 11, 12, 13, 14, 15, 16, 17]\<rparr> \<bind> swap7 = Some \<lparr>data = [1, 2, 3, 4, 5, 6, 7, 8, 9, 10, 11, 12, 13, 14, 15, 16, 17]\<rparr> \<and>
   8 < length (data \<lparr>data = [1, 2, 3, 4, 5, 6, 7, 8, 9, 10, 11, 12, 13, 14, 15, 16, 17]\<rparr>) \<and>
   swap8 \<lparr>data = [1, 2, 3, 4, 5, 6, 7, 8, 9, 10, 11, 12, 13, 14, 15, 16, 17]\<rparr> = Some \<lparr>data = [1, 2, 3, 4, 5, 6, 7, 8, 17, 10, 11, 12, 13, 14, 15, 16, 9]\<rparr> \<and>
   swap8 \<lparr>data = [1, 2, 3, 4, 5, 6, 7, 8, 9, 10, 11, 12, 13, 14, 15, 16, 17]\<rparr> \<bind> swap8 = Some \<lparr>data = [1, 2, 3, 4, 5, 6, 7, 8, 9, 10, 11, 12, 13, 14, 15, 16, 17]\<rparr> \<and>
   9 < length (data \<lparr>data = [1, 2, 3, 4, 5, 6, 7, 8, 9, 10, 11, 12, 13, 14, 15, 16, 17]\<rparr>) \<and>
   swap9 \<lparr>data = [1, 2, 3, 4, 5, 6, 7, 8, 9, 10, 11, 12, 13, 14, 15, 16, 17]\<rparr> = Some \<lparr>data = [1, 2, 3, 4, 5, 6, 7, 17, 9, 10, 11, 12, 13, 14, 15, 16, 8]\<rparr> \<and>
   swap9 \<lparr>data = [1, 2, 3, 4, 5, 6, 7, 8, 9, 10, 11, 12, 13, 14, 15, 16, 17]\<rparr> \<bind> swap9 = Some \<lparr>data = [1, 2, 3, 4, 5, 6, 7, 8, 9, 10, 11, 12, 13, 14, 15, 16, 17]\<rparr> \<and>
   10 < length (data \<lparr>data = [1, 2, 3, 4, 5, 6, 7, 8, 9, 10, 11, 12, 13, 14, 15, 16, 17]\<rparr>) \<and>
   swap10 \<lparr>data = [1, 2, 3, 4, 5, 6, 7, 8, 9, 10, 11, 12, 13, 14, 15, 16, 17]\<rparr> = Some \<lparr>data = [1, 2, 3, 4, 5, 6, 17, 8, 9, 10, 11, 12, 13, 14, 15, 16, 7]\<rparr> \<and>
   swap10 \<lparr>data = [1, 2, 3, 4, 5, 6, 7, 8, 9, 10, 11, 12, 13, 14, 15, 16, 17]\<rparr> \<bind> swap10 = Some \<lparr>data = [1, 2, 3, 4, 5, 6, 7, 8, 9, 10, 11, 12, 13, 14, 15, 16, 17]\<rparr> \<and>
   11 < length (data \<lparr>data = [1, 2, 3, 4, 5, 6, 7, 8, 9, 10, 11, 12, 13, 14, 15, 16, 17]\<rparr>) \<and>
   swap11 \<lparr>data = [1, 2, 3, 4, 5, 6, 7, 8, 9, 10, 11, 12, 13, 14, 15, 16, 17]\<rparr> = Some \<lparr>data = [1, 2, 3, 4, 5, 17, 7, 8, 9, 10, 11, 12, 13, 14, 15, 16, 6]\<rparr> \<and>
   swap11 \<lparr>data = [1, 2, 3, 4, 5, 6, 7, 8, 9, 10, 11, 12, 13, 14, 15, 16, 17]\<rparr> \<bind> swap11 = Some \<lparr>data = [1, 2, 3, 4, 5, 6, 7, 8, 9, 10, 11, 12, 13, 14, 15, 16, 17]\<rparr> \<and>
   12 < length (data \<lparr>data = [1, 2, 3, 4, 5, 6, 7, 8, 9, 10, 11, 12, 13, 14, 15, 16, 17]\<rparr>) \<and>
   swap12 \<lparr>data = [1, 2, 3, 4, 5, 6, 7, 8, 9, 10, 11, 12, 13, 14, 15, 16, 17]\<rparr> = Some \<lparr>data = [1, 2, 3, 4, 17, 6, 7, 8, 9, 10, 11, 12, 13, 14, 15, 16, 5]\<rparr> \<and>
   swap12 \<lparr>data = [1, 2, 3, 4, 5, 6, 7, 8, 9, 10, 11, 12, 13, 14, 15, 16, 17]\<rparr> \<bind> swap12 = Some \<lparr>data = [1, 2, 3, 4, 5, 6, 7, 8, 9, 10, 11, 12, 13, 14, 15, 16, 17]\<rparr> \<and>
   13 < length (data \<lparr>data = [1, 2, 3, 4, 5, 6, 7, 8, 9, 10, 11, 12, 13, 14, 15, 16, 17]\<rparr>) \<and>
   swap13 \<lparr>data = [1, 2, 3, 4, 5, 6, 7, 8, 9, 10, 11, 12, 13, 14, 15, 16, 17]\<rparr> = Some \<lparr>data = [1, 2, 3, 17, 5, 6, 7, 8, 9, 10, 11, 12, 13, 14, 15, 16, 4]\<rparr> \<and>
   swap13 \<lparr>data = [1, 2, 3, 4, 5, 6, 7, 8, 9, 10, 11, 12, 13, 14, 15, 16, 17]\<rparr> \<bind> swap13 = Some \<lparr>data = [1, 2, 3, 4, 5, 6, 7, 8, 9, 10, 11, 12, 13, 14, 15, 16, 17]\<rparr> \<and>
   14 < length (data \<lparr>data = [1, 2, 3, 4, 5, 6, 7, 8, 9, 10, 11, 12, 13, 14, 15, 16, 17]\<rparr>) \<and>
   swap14 \<lparr>data = [1, 2, 3, 4, 5, 6, 7, 8, 9, 10, 11, 12, 13, 14, 15, 16, 17]\<rparr> = Some \<lparr>data = [1, 2, 17, 4, 5, 6, 7, 8, 9, 10, 11, 12, 13, 14, 15, 16, 3]\<rparr> \<and>
   swap14 \<lparr>data = [1, 2, 3, 4, 5, 6, 7, 8, 9, 10, 11, 12, 13, 14, 15, 16, 17]\<rparr> \<bind> swap14 = Some \<lparr>data = [1, 2, 3, 4, 5, 6, 7, 8, 9, 10, 11, 12, 13, 14, 15, 16, 17]\<rparr> \<and>
   15 < length (data \<lparr>data = [1, 2, 3, 4, 5, 6, 7, 8, 9, 10, 11, 12, 13, 14, 15, 16, 17]\<rparr>) \<and>
   swap15 \<lparr>data = [1, 2, 3, 4, 5, 6, 7, 8, 9, 10, 11, 12, 13, 14, 15, 16, 17]\<rparr> = Some \<lparr>data = [1, 17, 3, 4, 5, 6, 7, 8, 9, 10, 11, 12, 13, 14, 15, 16, 2]\<rparr> \<and>
   swap15 \<lparr>data = [1, 2, 3, 4, 5, 6, 7, 8, 9, 10, 11, 12, 13, 14, 15, 16, 17]\<rparr> \<bind> swap15 = Some \<lparr>data = [1, 2, 3, 4, 5, 6, 7, 8, 9, 10, 11, 12, 13, 14, 15, 16, 17]\<rparr> \<and>
   16 < length (data \<lparr>data = [1, 2, 3, 4, 5, 6, 7, 8, 9, 10, 11, 12, 13, 14, 15, 16, 17]\<rparr>) \<and>
   swap16 \<lparr>data = [1, 2, 3, 4, 5, 6, 7, 8, 9, 10, 11, 12, 13, 14, 15, 16, 17]\<rparr> = Some \<lparr>data = [17, 2, 3, 4, 5, 6, 7, 8, 9, 10, 11, 12, 13, 14, 15, 16, 1]\<rparr> \<and>
   swap16 \<lparr>data = [1, 2, 3, 4, 5, 6, 7, 8, 9, 10, 11, 12, 13, 14, 15, 16, 17]\<rparr> \<bind> swap16 = Some \<lparr>data = [1, 2, 3, 4, 5, 6, 7, 8, 9, 10, 11, 12, 13, 14, 15, 16, 17]\<rparr> \<and>
   1 \<le> length (data \<lparr>data = [1, 2, 3, 4, 5, 6, 7, 8, 9, 10, 11, 12, 13, 14, 15, 16, 17]\<rparr>) \<and>
   dup 1 \<lparr>data = [1, 2, 3, 4, 5, 6, 7, 8, 9, 10, 11, 12, 13, 14, 15, 16, 17]\<rparr> \<bind> pop = Some (17, \<lparr>data = [1, 2, 3, 4, 5, 6, 7, 8, 9, 10, 11, 12, 13, 14, 15, 16, 17]\<rparr>)"
  using swap_twice_dup_pop [of "\<lparr>data = [1, 2, 3, 4, 5, 6, 7, 8, 9, 10, 11, 12, 13, 14, 15, 16, 17]\<rparr>"]
  by (simp add: swap1_def swap2_def swap3_def swap4_def swap5_def swap6_def swap7_def swap8_def swap9_def swap10_def swap11_def swap12_def swap13_def swap14_def swap15_def swap16_def
      swap_body_def dup_def push_def pop_def go_slice_defs)

section \<open>Properties of the batched calls\<close>

lemma Multicall_demo_results:
  "DoMulticall demo_backend [2, 0, 3, 0] =
     Some ([\<lparr>GasUsed = 21000, MinGasLimit = 21000, Output = [2], AccessList = [], Logs = [],
              Err = None\<rparr>,
            \<lparr>GasUsed = 21000, MinGasLimit = 21000, Output = [2], AccessList = [], Logs = [],
              Err = Some (External ''execution reverted'')\<rparr>,
            \<lparr>GasUsed = 21000, MinGasLimit = 21000, Output = [5], AccessList = [], Logs = [],
              Err = None\<rparr>,
            \<lparr>GasUsed = 21000, MinGasLimit = 21000, Output = [5], AccessList = [], Logs = [],
              Err = Some (External ''execution reverted'')\<rparr>], None)"
  by (simp add: DoMulticall_def demo_backend_def call_def)

lemma Multicall_loop_last_failure:
  "Err r = Some err \<Longrightarrow>
   Multicall_loop UnpackRevert i (rs @ [r]) firstErr =
     Some (Call_reverted (int (i + length rs) + 1)
       (case UnpackRevert (Output r) of Some reason \<Rightarrow> With_reason err reason | None \<Rightarrow> err))"
  by (induction rs arbitrary: i firstErr) (simp_all split: option.splits)

text \<open>
  C3 (the code at the failing input). Of four batched calls the second and the fourth
  fail, with return data that decodes to the reasons \<open>low balance\<close> and
  \<open>high balance\<close>.
  \<open>Multicall\<close> returns all four results and an error, and the error is that of the
  fourth call, the last failing one: \<open>firstErr\<close> is assigned in every failing iteration.
\<close>

theorem Multicall_reports_last_failure:
  "Multicall demo_backend demo_UnpackRevert [2, 0, 3, 0] =
     Some ([\<lparr>GasUsed = 21000, MinGasLimit = 21000, Output = [2], AccessList = [], Logs = [],
              Err = None\<rparr>,
            \<lparr>GasUsed = 21000, MinGasLimit = 21000, Output = [2], AccessList = [], Logs = [],
              Err = Some (External ''execution reverted'')\<rparr>,
            \<lparr>GasUsed = 21000, MinGasLimit = 21000, Output = [5], AccessList = [], Logs = [],
              Err = None\<rparr>,
            \<lparr>GasUsed = 21000, MinGasLimit = 21000, Output = [5], AccessList = [], Logs = [],
              Err = Some (External ''execution reverted'')\<rparr>],
           Some (Call_reverted 4 (With_reason (External ''execution reverted'') ''high balance''))) \<and>
   Call_reverted 4 (With_reason (External ''execution reverted'') ''high balance'') \<noteq>
   Call_reverted 2 (With_reason (External ''execution reverted'') ''low balance'')"
  by (simp add: Multicall_def Multicall_demo_results demo_UnpackRevert_def)




section \<open>Properties of the code bitmap\<close>

declare codeBitvecInternal.simps [simp del]
declare Build_clipped_scan.simps [simp del]

lemma model_passes_TestBitvec:
  "list_all (\<lambda>(code, want). newCodeBitVec code = Some want) TestBitvec_tests"
  by code_simp

lemma clipped_account_fails_TestBitvec:
  "filter (\<lambda>i. Build_clipped (fst (TestBitvec_tests ! i)) \<noteq> Some (snd (TestBitvec_tests ! i)))
     [0..<length TestBitvec_tests] = [4, 9, 11, 13]"
  by code_simp

lemma push_immediates_le:
  assumes "PUSH1 \<le> op" and "op \<le> PUSH32"
  shows "unat (op - PUSH1) + 1 \<le> 32"
proof -
  from assms have "96 \<le> unat op" and "unat op \<le> 127"
    by (simp_all add: PUSH1_def PUSH32_def word_le_nat_alt)
  moreover from assms(1) have "unat (op - PUSH1) = unat op - unat PUSH1"
    by (simp add: unat_sub)
  ultimately show ?thesis by (simp add: PUSH1_def)
qed

lemma set1_Some:
  "pos < 32 * length bits \<Longrightarrow> \<exists>bits'. set1 bits pos = Some bits' \<and> length bits' = length bits"
  by (auto simp: set1_def)

lemma set1_length: "set1 bits pos = Some bits' \<Longrightarrow> length bits' = length bits"
  by (auto simp: set1_def split: if_splits)

lemma setN_Some:
  "pos + n \<le> 32 * length bits \<Longrightarrow> \<exists>bits'. setN bits pos n = Some bits' \<and> length bits' = length bits"
proof (induction n arbitrary: bits pos)
  case 0
  then show ?case by simp
next
  case (Suc n)
  then have "pos < 32 * length bits" by simp
  then obtain b1 where b1: "set1 bits pos = Some b1" "length b1 = length bits"
    using set1_Some by blast
  with Suc.prems have "(pos + 1) + n \<le> 32 * length b1" by simp
  from Suc.IH [OF this] b1 show ?case by simp
qed

lemma IsPushData_set1:
  assumes "set1 bits pos = Some bits'"
  shows "IsPushData bits' q = (q = pos \<or> IsPushData bits q)"
proof -
  from assms have r: "pos div 32 < length bits"
    and b: "bits' = bits[pos div 32 := bits ! (pos div 32) OR push_bit (pos mod 32) 1]"
    by (auto simp: set1_def split: if_splits)
  show ?thesis
  proof (cases "q div 32 = pos div 32")
    case True
    have "q = pos \<longleftrightarrow> q mod 32 = pos mod 32"
      using True by (metis div_mult_mod_eq)
    then show ?thesis
      using True r by (auto simp: IsPushData_def b bit_or_iff bit_exp_iff)
  next
    case False
    then have "q \<noteq> pos" by auto
    with False show ?thesis
      by (auto simp: IsPushData_def b)
  qed
qed

lemma IsPushData_setN:
  "setN bits pos n = Some bits' \<Longrightarrow>
   IsPushData bits' q = ((pos \<le> q \<and> q < pos + n) \<or> IsPushData bits q)"
proof (induction n arbitrary: bits pos)
  case 0
  then show ?case by auto
next
  case (Suc n)
  then obtain b1 where b1: "set1 bits pos = Some b1" and r: "setN b1 (pos + 1) n = Some bits'"
    by (auto split: option.splits)
  from Suc.IH [OF r] IsPushData_set1 [OF b1, of q] show ?case by auto
qed

lemma IsPushData_zero: "\<not> IsPushData (replicate k 0) q"
  by (simp add: IsPushData_def)

lemma codeBitvecInternal_end:
  "\<not> pc < length code \<Longrightarrow> codeBitvecInternal code pc bits = Some bits"
  by (simp add: codeBitvecInternal.simps [of code pc bits])

lemma codeBitvecInternal_skip:
  "pc < length code \<Longrightarrow> \<not> (PUSH1 \<le> code ! pc \<and> code ! pc \<le> PUSH32) \<Longrightarrow>
   codeBitvecInternal code pc bits = codeBitvecInternal code (pc + 1) bits"
  by (auto simp: codeBitvecInternal.simps [of code pc bits] simp del: setN.simps)

lemma codeBitvecInternal_push:
  "pc < length code \<Longrightarrow> PUSH1 \<le> code ! pc \<and> code ! pc \<le> PUSH32 \<Longrightarrow>
   codeBitvecInternal code pc bits =
     (case setN bits (pc + 1) (unat (code ! pc - PUSH1) + 1) of
        None \<Rightarrow> None
      | Some bits' \<Rightarrow> codeBitvecInternal code (pc + 1 + (unat (code ! pc - PUSH1) + 1)) bits')"
  by (auto simp: codeBitvecInternal.simps [of code pc bits] simp del: setN.simps)

lemma codeBitvecInternal_Some:
  "length code + 32 \<le> 32 * length bits \<Longrightarrow>
   \<exists>bits'. codeBitvecInternal code pc bits = Some bits' \<and> length bits' = length bits"
proof (induction code pc bits rule: codeBitvecInternal.induct)
  case (1 code pc bits)
  show ?case
  proof (cases "pc < length code")
    case False
    then show ?thesis by (simp add: codeBitvecInternal_end)
  next
    case True
    show ?thesis
    proof (cases "PUSH1 \<le> code ! pc \<and> code ! pc \<le> PUSH32")
      case False
      from "1.IH"(2) [OF True False "1.prems"] show ?thesis
        by (simp only: codeBitvecInternal_skip [OF True False])
    next
      case push: True
      let ?n = "unat (code ! pc - PUSH1) + 1"
      from push have "?n \<le> 32" using push_immediates_le [of "code ! pc"] by blast
      with True "1.prems" have "(pc + 1) + ?n \<le> 32 * length bits" by simp
      then obtain b1 where b1: "setN bits (pc + 1) ?n = Some b1" "length b1 = length bits"
        using setN_Some by blast
      with "1.prems" have "length code + 32 \<le> 32 * length b1" by simp
      from "1.IH"(1) [OF True push b1(1) this] b1 show ?thesis
        by (simp only: codeBitvecInternal_push [OF True push] option.case)
    qed
  qed
qed

lemma codeBitvecInternal_marks:
  "codeBitvecInternal code pc bits = Some bits' \<Longrightarrow> IsPushData bits' q \<Longrightarrow>
   IsPushData bits q \<or>
   (\<exists>p < length code. PUSH1 \<le> code ! p \<and> code ! p \<le> PUSH32 \<and> p < q \<and>
      q \<le> p + (unat (code ! p - PUSH1) + 1))"
proof (induction code pc bits rule: codeBitvecInternal.induct)
  case (1 code pc bits)
  show ?case
  proof (cases "pc < length code")
    case False
    with "1.prems" show ?thesis by (simp add: codeBitvecInternal_end)
  next
    case True
    show ?thesis
    proof (cases "PUSH1 \<le> code ! pc \<and> code ! pc \<le> PUSH32")
      case False
      with True "1.prems" have "codeBitvecInternal code (pc + 1) bits = Some bits'"
        by (simp only: codeBitvecInternal_skip [OF True False])
      from "1.IH"(2) [OF True False this "1.prems"(2)] show ?thesis .
    next
      case push: True
      let ?n = "unat (code ! pc - PUSH1) + 1"
      from "1.prems"(1) obtain b1 where b1: "setN bits (pc + 1) ?n = Some b1"
        and r: "codeBitvecInternal code (pc + 1 + ?n) b1 = Some bits'"
        unfolding codeBitvecInternal_push [OF True push] by (auto split: option.splits)
      from "1.IH"(1) [OF True push b1 r "1.prems"(2)]
      show ?thesis
      proof
        assume "IsPushData b1 q"
        with IsPushData_setN [OF b1, of q] have "IsPushData bits q \<or> (pc < q \<and> q \<le> pc + ?n)"
          by auto
        with True push show ?thesis by blast
      qed simp
    qed
  qed
qed

lemma newCodeBitVec_Some:
  "\<exists>bits. newCodeBitVec code = Some bits \<and> length bits = length code div 32 + 2"
proof -
  have "length code + 32 \<le> 32 * length (replicate (length code div 32 + 2) (0 :: 32 word))"
    by simp
  from codeBitvecInternal_Some [OF this, of 0] show ?thesis
    by (simp add: newCodeBitVec_def)
qed

lemma newCodeBitVec_marks:
  assumes "newCodeBitVec code = Some bits" and "IsPushData bits q"
  shows "\<exists>p < length code. PUSH1 \<le> code ! p \<and> code ! p \<le> PUSH32 \<and> p < q \<and>
           q \<le> p + (unat (code ! p - PUSH1) + 1)"
  using codeBitvecInternal_marks [of code 0 "replicate (length code div 32 + 2) 0" bits q] assms
    IsPushData_zero [of "length code div 32 + 2" q]
  unfolding newCodeBitVec_def by blast

lemma newCodeBitVec_PUSH32: "newCodeBitVec [PUSH32] = Some [0xFFFFFFFE, 1]"
  by code_simp

lemma newCodeBitVec_four_PUSH1: "newCodeBitVec [PUSH1, PUSH1, PUSH1, PUSH1] = Some [10, 0]"
  by code_simp

lemma newCodeBitVec_empty: "newCodeBitVec [] = Some [0, 0]"
  by code_simp

lemma IsPushData_PUSH32_bits: "filter (IsPushData [0xFFFFFFFE, 1]) [0..<64] = [1..<33]"
  by code_simp

text \<open>
  C6. The analysis returns a bitmap for every code buffer (no write leaves the bitmap),
  and the bitmap has at least two words; for the empty buffer it is two zero words.
\<close>

theorem Build_total_two_words:
  "(\<exists>bits. newCodeBitVec code = Some bits \<and> 2 \<le> length bits) \<and>
   newCodeBitVec [] = Some [0, 0]"
proof -
  obtain bits where "newCodeBitVec code = Some bits" "length bits = length code div 32 + 2"
    using newCodeBitVec_Some by blast
  then have "\<exists>bits. newCodeBitVec code = Some bits \<and> 2 \<le> length bits" by simp
  with newCodeBitVec_empty show ?thesis by blast
qed

text \<open>
  C2 (as stated, refuted). For the one-byte code \<open>[PUSH32]\<close> the bitmap is the one
  \<open>TestBitvec\<close> expects, \<open>[0xFFFFFFFE, 1]\<close>: position 32 is marked although the buffer
  has length 1, and 32 bits are set, not 31.
\<close>

theorem Build_PUSH32_counterexample:
  "newCodeBitVec [PUSH32] = Some [0xFFFFFFFE, 1] \<and>
   TestBitvec_tests ! 11 = ([PUSH32], [0xFFFFFFFE, 1]) \<and>
   IsPushData [0xFFFFFFFE, 1] 32 \<and> \<not> 32 < length [PUSH32] \<and>
   length (filter (IsPushData [0xFFFFFFFE, 1]) [0..<64]) = 32"
proof -
  have "TestBitvec_tests ! 11 = ([PUSH32], [0xFFFFFFFE, 1])"
    by (simp add: TestBitvec_tests_def)
  moreover have "IsPushData [0xFFFFFFFE, 1] 32"
    by code_simp
  ultimately show ?thesis
    by (simp add: newCodeBitVec_PUSH32 IsPushData_PUSH32_bits)
qed

text \<open>
  C2 (amended). For every code buffer the analysis returns a bitmap in which every marked
  position lies among the declared immediates of a push opcode of the buffer: it is one of
  the positions \<open>p + 1, ..., p + n\<close> for a push opcode at a position \<open>p\<close> of the buffer
  with \<open>n\<close> immediate bytes, whether or not the buffer has a byte there. On the one-byte
  code \<open>[PUSH32]\<close> it marks exactly the 32 positions 1 to 32, all of them beyond the end
  of the buffer.
\<close>

theorem Build_marks_declared_immediates:
  "(\<exists>bits. newCodeBitVec code = Some bits \<and>
      (\<forall>q. IsPushData bits q \<longrightarrow>
         (\<exists>p < length code. PUSH1 \<le> code ! p \<and> code ! p \<le> PUSH32 \<and> p < q \<and>
            q \<le> p + (unat (code ! p - PUSH1) + 1)))) \<and>
   newCodeBitVec [PUSH32] = Some [0xFFFFFFFE, 1] \<and>
   filter (IsPushData [0xFFFFFFFE, 1]) [0..<64] = [1..<33]"
proof -
  obtain bits where b: "newCodeBitVec code = Some bits"
    using newCodeBitVec_Some by blast
  then have "\<forall>q. IsPushData bits q \<longrightarrow>
         (\<exists>p < length code. PUSH1 \<le> code ! p \<and> code ! p \<le> PUSH32 \<and> p < q \<and>
            q \<le> p + (unat (code ! p - PUSH1) + 1))"
    using newCodeBitVec_marks by blast
  with b newCodeBitVec_PUSH32 IsPushData_PUSH32_bits show ?thesis by blast
qed

theorem Build_marks_declared_immediates_witness:
  "IsPushData [0xFFFFFFFE, 1] 32 \<and>
   (\<exists>p < length [PUSH32]. PUSH1 \<le> [PUSH32] ! p \<and> [PUSH32] ! p \<le> PUSH32 \<and> p < 32 \<and>
      32 \<le> p + (unat ([PUSH32] ! p - PUSH1) + 1))"
proof -
  have m: "IsPushData [0xFFFFFFFE, 1] 32"
    by code_simp
  from Build_marks_declared_immediates [of "[PUSH32]"]
  have "\<forall>q. IsPushData [0xFFFFFFFE, 1] q \<longrightarrow>
         (\<exists>p < length [PUSH32]. PUSH1 \<le> [PUSH32] ! p \<and> [PUSH32] ! p \<le> PUSH32 \<and> p < q \<and>
            q \<le> p + (unat ([PUSH32] ! p - PUSH1) + 1))"
    by (simp add: newCodeBitVec_PUSH32)
  with m show ?thesis by blast
qed

text \<open>
  C4 (as stated, refuted). For four consecutive \<open>PUSH1\<close> bytes the bitmap is the one
  \<open>TestBitvec\<close> expects, \<open>[0b1010, 0]\<close>: positions 5 and 7 are not marked (the buffer
  ends at position 3).
\<close>

theorem Build_four_PUSH1_counterexample:
  "newCodeBitVec [PUSH1, PUSH1, PUSH1, PUSH1] = Some [0b1010, 0] \<and>
   TestBitvec_tests ! 3 = ([PUSH1, PUSH1, PUSH1, PUSH1], [0b1010, 0]) \<and>
   \<not> IsPushData [0b1010, 0] 5 \<and> \<not> IsPushData [0b1010, 0] 7"
proof -
  have "TestBitvec_tests ! 3 = ([PUSH1, PUSH1, PUSH1, PUSH1], [0b1010, 0])"
    by (simp add: TestBitvec_tests_def)
  moreover have "\<not> IsPushData [0b1010, 0] 5" and "\<not> IsPushData [0b1010, 0] 7"
    by code_simp+
  ultimately show ?thesis
    by (simp add: newCodeBitVec_four_PUSH1)
qed

text \<open>
  C4 (amended). The analysis of the four-byte code of four consecutive \<open>PUSH1\<close> bytes
  returns the bitmap \<open>[0b1010, 0]\<close>, in which exactly the positions 1 and 3 are marked:
  the second and the fourth byte are the immediates of the first and the third.
\<close>

theorem Build_four_PUSH1:
  "newCodeBitVec [PUSH1, PUSH1, PUSH1, PUSH1] = Some [0b1010, 0] \<and>
   filter (IsPushData [0b1010, 0]) [0..<64] = [1, 3]"
proof -
  have "filter (IsPushData [0b1010, 0]) [0..<64] = [1, 3]"
    by code_simp
  with newCodeBitVec_four_PUSH1 show ?thesis by simp
qed

text \<open>
  C5 (as stated, refuted). In the bitmap of the one-byte code \<open>[PUSH32]\<close> position 1,
  which is beyond the end of the code, is reported as push data.
\<close>

theorem IsPushData_past_end_counterexample:
  "newCodeBitVec [PUSH32] = Some [0xFFFFFFFE, 1] \<and>
   length [PUSH32] \<le> 1 \<and> IsPushData [0xFFFFFFFE, 1] 1"
proof -
  have "IsPushData [0xFFFFFFFE, 1] 1"
    by code_simp
  then show ?thesis
    by (simp add: newCodeBitVec_PUSH32)
qed

text \<open>
  C5 (amended). For every code buffer, the query on the bitmap built from it is false at
  every position at or beyond the code length plus 32 (the positions from the code length
  up to 31 beyond it can be marked, as the immediates of a push opcode near the end of the
  buffer); the query is a total function of the bitmap and the position.
\<close>

theorem IsPushData_false_past_immediates:
  "\<exists>bits. newCodeBitVec code = Some bits \<and>
     (\<forall>pos. length code + 32 \<le> pos \<longrightarrow> \<not> IsPushData bits pos)"
proof -
  obtain bits where b: "newCodeBitVec code = Some bits"
    using newCodeBitVec_Some by blast
  have "\<not> IsPushData bits pos" if "length code + 32 \<le> pos" for pos
  proof
    assume "IsPushData bits pos"
    from newCodeBitVec_marks [OF b this] obtain p where p: "p < length code"
      "PUSH1 \<le> code ! p" "code ! p \<le> PUSH32" "pos \<le> p + (unat (code ! p - PUSH1) + 1)"
      by blast
    from push_immediates_le [OF p(2,3)] p(1,4) that show False by simp
  qed
  with b show ?thesis by blast
qed

theorem IsPushData_false_past_immediates_witness:
  "newCodeBitVec [PUSH32] = Some [0xFFFFFFFE, 1] \<and> length [PUSH32] + 32 \<le> 33 \<and>
   \<not> IsPushData [0xFFFFFFFE, 1] 33"
proof -
  from IsPushData_false_past_immediates [of "[PUSH32]"]
  have "\<forall>pos. length [PUSH32] + 32 \<le> pos \<longrightarrow> \<not> IsPushData [0xFFFFFFFE, 1] pos"
    by (simp add: newCodeBitVec_PUSH32)
  then have "\<not> IsPushData [0xFFFFFFFE, 1] 33" by simp
  then show ?thesis by (simp add: newCodeBitVec_PUSH32)
qed

end
